theory Spec2Isabelle
  imports Complex_Main "HOL-Library.AList" "HOL-Library.Sublist"
begin

section \<open>Python values used by the service\<close>

text \<open>
  The service is two Python modules: \<^verbatim>\<open>whatsapp_bot.py\<close> (class \<^verbatim>\<open>WhatsAppBot\<close>,
  one browser session) and \<^verbatim>\<open>app.py\<close> (the Flask routes and the registry
  \<^verbatim>\<open>bot_instances\<close>). Strings are modelled as \<^typ>\<open>string\<close>; the texts that occur
  (device ids, phone numbers, paths) are ASCII. Method names that start with an underscore
  in the source lose it here (\<^verbatim>\<open>_setup_driver\<close> is \<open>setup_driver\<close>).
\<close>

text \<open>\<^verbatim>\<open>str.isdigit\<close> on the ASCII range: the ten decimal digits.\<close>

definition isdigit :: "char \<Rightarrow> bool" where
  "isdigit c = (c \<in> set ''0123456789'')"

text \<open>
  Lines 288-290 of \<^verbatim>\<open>WhatsAppBot.send_message\<close>:
  \<^verbatim>\<open>
  clean_phone = ''.join(filter(str.isdigit, phone_number))
  if not clean_phone.startswith('91') and len(clean_phone) == 10:
      clean_phone = '91' + clean_phone
  \<close>
\<close>

definition clean_phone :: "string \<Rightarrow> string" where
  "clean_phone phone_number =
     (let clean = filter isdigit phone_number
      in if \<not> prefix ''91'' clean \<and> length clean = 10 then ''91'' @ clean else clean)"

subsection \<open>Exceptions and dynamically typed values\<close>

text \<open>
  The exceptions that occur: Selenium's \<^verbatim>\<open>TimeoutException\<close> and
  \<^verbatim>\<open>NoSuchElementException\<close>, any other driver failure
  (\<^verbatim>\<open>WebDriverException\<close> with its message), and Python's own
  \<^verbatim>\<open>AttributeError\<close> (type name, attribute name), \<^verbatim>\<open>KeyError\<close> and
  \<^verbatim>\<open>OSError\<close>.
\<close>

datatype exn =
    TimeoutException
  | NoSuchElementException
  | WebDriverException string
  | AttributeError string string
  | KeyError string
  | OSError string

text \<open>\<^verbatim>\<open>str(e)\<close>, the text the handlers put into their error fields.\<close>

fun str_exn :: "exn \<Rightarrow> string" where
  "str_exn TimeoutException = ''Message: ''"
| "str_exn NoSuchElementException = ''Message: no such element''"
| "str_exn (WebDriverException m) = ''Message: '' @ m"
| "str_exn (AttributeError ty attr) =
     [CHR 0x27] @ ty @ [CHR 0x27] @ '' object has no attribute '' @ [CHR 0x27] @ attr @ [CHR 0x27]"
| "str_exn (KeyError k) = [CHR 0x27] @ k @ [CHR 0x27]"
| "str_exn (OSError m) = m"

text \<open>
  Values whose Python type matters to the code: \<^verbatim>\<open>None\<close>, booleans, \<^verbatim>\<open>str\<close> and
  \<^verbatim>\<open>pathlib.Path\<close> objects. A \<^verbatim>\<open>dict\<close> with string keys is an association list.
\<close>

datatype pyval = PyNone | PyBool bool | PyStr string | PyPath string

type_synonym pydict = "(string \<times> pyval) list"

text \<open>Truth value testing (\<^verbatim>\<open>if x:\<close>): a \<^verbatim>\<open>Path\<close> is always true, a \<^verbatim>\<open>dict\<close> is
  true unless it is empty.\<close>

fun truthy :: "pyval \<Rightarrow> bool" where
  "truthy PyNone = False"
| "truthy (PyBool b) = b"
| "truthy (PyStr s) = (s \<noteq> [])"
| "truthy (PyPath p) = True"

definition dict_truthy :: "pydict \<Rightarrow> bool" where
  "dict_truthy d = (d \<noteq> [])"

text \<open>An optional string argument (\<^verbatim>\<open>message=None\<close>) under \<^verbatim>\<open>if message:\<close>.\<close>

definition opt_truthy :: "string option \<Rightarrow> bool" where
  "opt_truthy x = (case x of None \<Rightarrow> False | Some s \<Rightarrow> s \<noteq> [])"

text \<open>\<^verbatim>\<open>a or b\<close> on optional strings.\<close>

definition py_or :: "string option \<Rightarrow> string option \<Rightarrow> string option" where
  "py_or a b = (if opt_truthy a then a else b)"

subsection \<open>The world outside the process\<close>

text \<open>
  What the code reaches outside its own objects: the wall clock (\<^verbatim>\<open>time.time()\<close>), the
  file system (files and directories that exist), the \<^verbatim>\<open>PATH\<close> lookup of
  \<^verbatim>\<open>shutil.which\<close>, and the browser. The browser is not under the program's control:
  its answer to the \<open>n\<close>-th command sent to it is \<open>browser n\<close>, either success or an
  exception, and \<open>tick\<close> counts the commands sent so far. \<open>location\<close> is the URL
  of the last successful navigation and \<open>live\<close> is the set of running driver processes,
  by handle. The clock is advanced by \<^verbatim>\<open>time.sleep\<close> only,
  a lower bound on the time that really passes. Creating a directory and reading the
  clock do not fail; opening or removing a file fails on a directory; every command
  to the browser may fail.
\<close>

datatype reply = Done | Raises exn

record env =
  clock :: real
  files :: "string set"
  dirs :: "string set"
  path_lookup :: "string \<Rightarrow> string option"
  browser :: "nat \<Rightarrow> reply"
  tick :: nat
  location :: string
  live :: "nat set"
  next_handle :: nat

text \<open>\<^verbatim>\<open>os.path.exists\<close>.\<close>

definition path_exists :: "env \<Rightarrow> string \<Rightarrow> bool" where
  "path_exists e p = (p \<in> files e \<or> p \<in> dirs e)"

section \<open>One session: class WhatsAppBot\<close>

record bot =
  device_id :: string
  headless :: bool
  driver :: "nat option"
  session_dir :: string
  qr_code_path :: string
  is_authenticated :: bool
  whatsapp_url :: string
  profile_dir :: string
  last_activity :: real

text \<open>
  A method runs on its object and the world, may change both, and returns a value or
  raises. The combinators below are Python's sequencing, \<^verbatim>\<open>raise\<close> and
  \<^verbatim>\<open>try ... except\<close>; the state reached when an exception is raised is kept.
\<close>

type_synonym mstate = "bot \<times> env"

type_synonym 'a action = "mstate \<Rightarrow> (exn + 'a) \<times> mstate"

definition ret :: "'a \<Rightarrow> 'a action" where
  "ret x = (\<lambda>s. (Inr x, s))"

definition throw :: "exn \<Rightarrow> 'a action" where
  "throw x = (\<lambda>s. (Inl x, s))"

definition andthen :: "'a action \<Rightarrow> ('a \<Rightarrow> 'b action) \<Rightarrow> 'b action" where
  "andthen m f = (\<lambda>s. case m s of (Inl x, s') \<Rightarrow> (Inl x, s') | (Inr v, s') \<Rightarrow> f v s')"

definition try_except :: "'a action \<Rightarrow> (exn \<Rightarrow> 'a action) \<Rightarrow> 'a action" where
  "try_except m h = (\<lambda>s. case m s of (Inl x, s') \<Rightarrow> h x s' | (Inr v, s') \<Rightarrow> (Inr v, s'))"

definition get_self :: "bot action" where
  "get_self = (\<lambda>s. (Inr (fst s), s))"

definition get_env :: "env action" where
  "get_env = (\<lambda>s. (Inr (snd s), s))"

definition set_self :: "(bot \<Rightarrow> bot) \<Rightarrow> unit action" where
  "set_self f = (\<lambda>s. (Inr (), (f (fst s), snd s)))"

definition set_env :: "(env \<Rightarrow> env) \<Rightarrow> unit action" where
  "set_env f = (\<lambda>s. (Inr (), (fst s, f (snd s))))"

text \<open>\<^verbatim>\<open>time.sleep(d)\<close>.\<close>

definition sleep :: "real \<Rightarrow> unit action" where
  "sleep d = set_env (\<lambda>e. e\<lparr>clock := clock e + d\<rparr>)"

text \<open>
  One command to the browser (a click, keys sent to an element, a wait on a
  condition): it takes the browser's next answer and raises what the answer raises.
\<close>

definition browser_call :: "unit action" where
  "browser_call = (\<lambda>s.
     let e = snd s; e' = e\<lparr>tick := Suc (tick e)\<rparr>
     in case browser e (tick e) of
          Done \<Rightarrow> (Inr (), (fst s, e'))
        | Raises x \<Rightarrow> (Inl x, (fst s, e')))"

text \<open>
  A method called on \<^verbatim>\<open>self.driver\<close> (\<^verbatim>\<open>get\<close>, \<^verbatim>\<open>find_element\<close>,
  \<^verbatim>\<open>execute_script\<close>, a \<^verbatim>\<open>WebDriverWait(self.driver, t).until(...)\<close>): on
  \<^verbatim>\<open>None\<close> it is an \<^verbatim>\<open>AttributeError\<close>, otherwise a browser command.
\<close>

definition driver_call :: "string \<Rightarrow> unit action" where
  "driver_call name =
     andthen get_self (\<lambda>b.
       case driver b of
         None \<Rightarrow> throw (AttributeError ''NoneType'' name)
       | Some h \<Rightarrow> browser_call)"

text \<open>\<^verbatim>\<open>self.driver.get(url)\<close>.\<close>

definition navigate :: "string \<Rightarrow> unit action" where
  "navigate url =
     andthen (driver_call ''get'') (\<lambda>_. set_env (\<lambda>e. e\<lparr>location := url\<rparr>))"

text \<open>\<^verbatim>\<open>webdriver.Chrome(service=..., options=...)\<close>: a new driver process, or the
  exception of a failed start.\<close>

definition start_chrome :: "nat action" where
  "start_chrome =
     andthen browser_call (\<lambda>_.
     andthen get_env (\<lambda>e.
     andthen (set_env (\<lambda>e. e\<lparr>live := insert (next_handle e) (live e),
                                next_handle := Suc (next_handle e)\<rparr>)) (\<lambda>_.
     ret (next_handle e))))"

text \<open>\<^verbatim>\<open>driver.quit()\<close> on handle \<open>h\<close>: the process ends unless the call raises.\<close>

definition quit_driver :: "nat \<Rightarrow> unit action" where
  "quit_driver h =
     andthen browser_call (\<lambda>_. set_env (\<lambda>e. e\<lparr>live := live e - {h}\<rparr>))"

subsection \<open>Construction\<close>

text \<open>
  \<^verbatim>\<open>__init__(self, device_id='default', headless=True, profile_dir=None)\<close>. The three
  \<^verbatim>\<open>os.makedirs(..., exist_ok=True)\<close> calls add the directories; \<^verbatim>\<open>last_activity\<close>
  is the time of construction. A \<^verbatim>\<open>Path\<close> passed as \<^verbatim>\<open>profile_dir\<close> is always true,
  so \<open>Some p\<close> stands for \<^verbatim>\<open>str(profile_dir)\<close>.
\<close>

definition WhatsAppBot :: "string \<Rightarrow> bool \<Rightarrow> string option \<Rightarrow> env \<Rightarrow> bot \<times> env" where
  "WhatsAppBot dev hl pdir e =
     (let sdir = ''sessions/'' @ dev;
          prof = (case pdir of Some p \<Rightarrow> p | None \<Rightarrow> sdir @ ''/user_data'');
          e' = e\<lparr>dirs := dirs e \<union> {sdir, ''qr_codes'', prof}\<rparr>
      in (\<lparr>device_id = dev, headless = hl, driver = None, session_dir = sdir,
           qr_code_path = ''qr_codes/'' @ dev @ ''_qr.png'', is_authenticated = False,
           whatsapp_url = ''https://web.whatsapp.com/'', profile_dir = prof,
           last_activity = clock e'\<rparr>, e'))"

subsection \<open>Starting the browser\<close>

definition find_chrome_executable :: "env \<Rightarrow> string option" where
  "find_chrome_executable e =
     (case List.find (path_exists e)
             [''/usr/bin/google-chrome'', ''/usr/bin/google-chrome-stable'',
              ''/usr/bin/chromium-browser'', ''/usr/bin/chromium'',
              ''/opt/google/chrome/chrome''] of
        Some path \<Rightarrow> Some path
      | None \<Rightarrow>
          (let chrome_path = py_or (path_lookup e ''google-chrome'')
                               (py_or (path_lookup e ''google-chrome-stable'')
                                  (path_lookup e ''chromium''))
           in if opt_truthy chrome_path then chrome_path else None))"

definition find_chromedriver_executable :: "env \<Rightarrow> string option" where
  "find_chromedriver_executable e =
     (case List.find (path_exists e)
             [''/usr/local/bin/chromedriver'', ''/usr/bin/chromedriver'',
              ''/opt/chromedriver'', ''/app/chromedriver''] of
        Some path \<Rightarrow> Some path
      | None \<Rightarrow>
          (let chromedriver_path = path_lookup e ''chromedriver''
           in if opt_truthy chromedriver_path then chromedriver_path else None))"

text \<open>
  \<^verbatim>\<open>_setup_driver\<close>. The Chrome options are data handed to the browser and have no
  effect on the program's own state; what matters is that the user data directory is
  \<^verbatim>\<open>os.path.join(self.session_dir, "user_data")\<close>, that the new driver is stored in
  \<^verbatim>\<open>self.driver\<close> as soon as it starts, and that three more driver calls follow
  (\<^verbatim>\<open>execute_script\<close>, \<^verbatim>\<open>set_page_load_timeout\<close>, \<^verbatim>\<open>implicitly_wait\<close>). Every
  exception makes the method return \<^verbatim>\<open>False\<close>.
\<close>

definition user_data_dir :: "bot \<Rightarrow> string" where
  "user_data_dir b = session_dir b @ ''/user_data''"

definition setup_driver :: "bool action" where
  "setup_driver =
     try_except
       (andthen get_env (\<lambda>e.
          let chrome_path = find_chrome_executable e;
              chromedriver_path = find_chromedriver_executable e
          in if \<not> opt_truthy chrome_path then ret False
             else if \<not> opt_truthy chromedriver_path then ret False
             else
               andthen get_self (\<lambda>b.
               andthen (set_env (\<lambda>e. e\<lparr>dirs := insert (user_data_dir b) (dirs e)\<rparr>)) (\<lambda>_.
               andthen start_chrome (\<lambda>h.
               andthen (set_self (\<lambda>b. b\<lparr>driver := Some h\<rparr>)) (\<lambda>_.
               andthen (driver_call ''execute_script'') (\<lambda>_.
               andthen (driver_call ''set_page_load_timeout'') (\<lambda>_.
               andthen (driver_call ''implicitly_wait'') (\<lambda>_.
               ret True)))))))))
       (\<lambda>x. ret False)"

subsection \<open>Authentication\<close>

text \<open>
  \<^verbatim>\<open>_check_authentication\<close> and \<^verbatim>\<open>_wait_for_qr_code\<close>: one bounded wait on the
  browser; only \<^verbatim>\<open>TimeoutException\<close> is caught. The CSS selectors are arguments of the
  browser command and do not influence the program's own state, so they are left out;
  where the source tries several selectors in turn, the number of tries is kept.
\<close>

definition check_authentication :: "bool action" where
  "check_authentication =
     try_except
       (andthen (driver_call ''find_element'') (\<lambda>_.
        andthen (set_self (\<lambda>b. b\<lparr>is_authenticated := True\<rparr>)) (\<lambda>_.
        ret True)))
       (\<lambda>x. if x = TimeoutException then ret False else throw x)"

definition wait_for_qr_code :: "real \<Rightarrow> bool action" where
  "wait_for_qr_code timeout =
     try_except
       (andthen (driver_call ''find_element'') (\<lambda>_. ret True))
       (\<lambda>x. if x = TimeoutException then ret False else throw x)"

text \<open>\<^verbatim>\<open>open(self.qr_code_path, 'wb')\<close> and the write.\<close>

definition write_qr_file :: "unit action" where
  "write_qr_file =
     andthen get_self (\<lambda>b.
     andthen get_env (\<lambda>e.
       if qr_code_path b \<in> dirs e then throw (OSError ''Is a directory'')
       else set_env (\<lambda>e. e\<lparr>files := insert (qr_code_path b) (files e)\<rparr>)))"

text \<open>The loop of \<^verbatim>\<open>_save_qr_code\<close> over its selectors.\<close>

primrec save_qr_loop :: "string list \<Rightarrow> bool action" where
  "save_qr_loop [] = ret False"
| "save_qr_loop (selector # rest) =
     try_except
       (andthen (driver_call ''find_element'') (\<lambda>_.
        andthen (driver_call ''execute_script'') (\<lambda>_.
        andthen write_qr_file (\<lambda>_.
        ret True))))
       (\<lambda>x. if x = NoSuchElementException then save_qr_loop rest else throw x)"

definition qr_selectors :: "string list" where
  "qr_selectors = [''canvas aria-label Scan me'', ''div data-ref canvas'', ''canvas aria-label QR'']"

definition save_qr_code :: "bool action" where
  "save_qr_code = try_except (save_qr_loop qr_selectors) (\<lambda>x. ret False)"

text \<open>
  The loop of \<^verbatim>\<open>_wait_for_authentication\<close>:
  \<^verbatim>\<open>
  while time.time() < end_time:
      if self._check_authentication():
          self.is_authenticated = True
          return True
      time.sleep(2)
  return False
  \<close>
  It ends because every round that does not return sleeps two seconds and
  \<^verbatim>\<open>_check_authentication\<close> never turns the clock back.
\<close>

lemma check_authentication_clock:
  "check_authentication s = (r, s') \<Longrightarrow> clock (snd s') = clock (snd s)"
  by (auto simp: check_authentication_def try_except_def andthen_def driver_call_def
      get_self_def set_self_def browser_call_def ret_def throw_def Let_def
      split: prod.splits sum.splits option.splits reply.splits if_splits)

function auth_loop :: "real \<Rightarrow> mstate \<Rightarrow> (exn + bool) \<times> mstate" where
  "auth_loop end_time s =
     (if clock (snd s) < end_time then
        (case check_authentication s of
           (Inl x, s') \<Rightarrow> (Inl x, s')
         | (Inr a, s') \<Rightarrow>
             if a then (Inr True, ((fst s')\<lparr>is_authenticated := True\<rparr>, snd s'))
             else auth_loop end_time (snd (sleep 2 s')))
      else (Inr False, s))"
  by pat_completeness auto
termination
proof (relation "measure (\<lambda>(end_time, s). nat \<lceil>end_time - clock (snd s)\<rceil>)", goal_cases)
  case 1
  then show ?case by simp
next
  case (2 end_time s x s' a)
  from 2(2) have "clock (snd s') = clock (snd s)"
    using check_authentication_clock [of s "fst (check_authentication s)" s']
    by (metis fst_conv)
  with 2 show ?case
    by (auto simp: sleep_def set_env_def) linarith
qed

definition wait_for_authentication :: "real \<Rightarrow> bool action" where
  "wait_for_authentication timeout =
     try_except
       (andthen get_env (\<lambda>e. auth_loop (clock e + timeout)))
       (\<lambda>x. ret False)"

subsection \<open>Session initialization\<close>

definition initialize_session :: "pydict action" where
  "initialize_session =
     try_except
       (andthen setup_driver (\<lambda>ok.
          if \<not> ok then
            ret [(''success'', PyBool False), (''error'', PyStr ''Failed to setup WebDriver'')]
          else
            andthen get_self (\<lambda>b.
            andthen (navigate (whatsapp_url b)) (\<lambda>_.
            andthen (sleep 3) (\<lambda>_.
            andthen check_authentication (\<lambda>authenticated.
              if authenticated then
                ret [(''success'', PyBool True), (''qr_required'', PyBool False)]
              else
                andthen (wait_for_qr_code 30) (\<lambda>qr_code_present.
                  if qr_code_present then
                    andthen save_qr_code (\<lambda>_.
                    andthen (wait_for_authentication 300) (\<lambda>auth_success.
                      if auth_success then
                        ret [(''success'', PyBool True), (''qr_required'', PyBool True)]
                      else
                        ret [(''success'', PyBool False),
                             (''error'', PyStr ''Authentication timeout'')]))
                  else
                    andthen check_authentication (\<lambda>authenticated.
                      if authenticated then
                        ret [(''success'', PyBool True), (''qr_required'', PyBool False)]
                      else
                        ret [(''success'', PyBool False),
                             (''error'', PyStr ''Unable to load WhatsApp Web'')]))))))))
       (\<lambda>x. ret [(''success'', PyBool False), (''error'', PyStr (str_exn x))])"

subsection \<open>Sending\<close>

definition wait_for_chat_to_load :: "real \<Rightarrow> bool action" where
  "wait_for_chat_to_load timeout =
     try_except
       (andthen (driver_call ''find_element'') (\<lambda>_.
        andthen (sleep 1) (\<lambda>_.
        ret True)))
       (\<lambda>x. if x = TimeoutException then ret False else throw x)"

text \<open>
  The selector loops of \<^verbatim>\<open>_send_text_message\<close> and \<^verbatim>\<open>_send_media\<close>: try each
  selector, stop at the first one the browser finds, pass over the exception \<open>skip\<close>
  (\<^verbatim>\<open>TimeoutException\<close> for a wait, \<^verbatim>\<open>NoSuchElementException\<close> for
  \<^verbatim>\<open>find_element\<close>). The result says whether an element was found.
\<close>

primrec first_match :: "exn \<Rightarrow> string list \<Rightarrow> bool action" where
  "first_match skip [] = ret False"
| "first_match skip (selector # rest) =
     try_except
       (andthen (driver_call ''find_element'') (\<lambda>_. ret True))
       (\<lambda>x. if x = skip then first_match skip rest else throw x)"

text \<open>\<^verbatim>\<open>message.split('\n')\<close>.\<close>

fun split_lines :: "string \<Rightarrow> string list" where
  "split_lines [] = [[]]"
| "split_lines (c # cs) =
     (if c = CHR 0x0A then [] # split_lines cs
      else (case split_lines cs of
              [] \<Rightarrow> [[c]]
            | l # ls \<Rightarrow> (c # l) # ls))"

text \<open>
  \<^verbatim>\<open>
  for i, line in enumerate(lines):
      message_box.send_keys(line)
      if i < len(lines) - 1:
          message_box.send_keys(Keys.SHIFT + Keys.ENTER)
  \<close>
\<close>

fun type_lines :: "string list \<Rightarrow> unit action" where
  "type_lines [] = ret ()"
| "type_lines [line] = browser_call"
| "type_lines (line # rest) =
     andthen browser_call (\<lambda>_. andthen browser_call (\<lambda>_. type_lines rest))"

definition input_selectors :: "string list" where
  "input_selectors = [''conversation-compose-box-input'', ''contenteditable data-tab 10'',
                      ''role textbox'']"

definition send_text_message :: "string \<Rightarrow> bool action" where
  "send_text_message message =
     try_except
       (andthen (first_match TimeoutException input_selectors) (\<lambda>message_box.
          if \<not> message_box then ret False
          else
            andthen browser_call (\<lambda>_.
            andthen (sleep (1/2)) (\<lambda>_.
            andthen (type_lines (split_lines message)) (\<lambda>_.
            andthen (sleep (1/2)) (\<lambda>_.
            andthen browser_call (\<lambda>_.
            andthen (sleep 1) (\<lambda>_.
            ret True))))))))
       (\<lambda>x. ret False)"

definition attachment_selectors :: "string list" where
  "attachment_selectors = [''div clip'', ''span clip'', ''div title Attach'']"

definition file_input_selectors :: "string list" where
  "file_input_selectors = [''input accept image'', ''input type file'']"

definition send_selectors :: "string list" where
  "send_selectors = [''span send'', ''div send'', ''button send'']"

definition send_media :: "string \<Rightarrow> bool action" where
  "send_media media_path =
     try_except
       (andthen (first_match TimeoutException attachment_selectors) (\<lambda>attachment_btn.
          if \<not> attachment_btn then ret False
          else
            andthen browser_call (\<lambda>_.
            andthen (sleep 1) (\<lambda>_.
            andthen (first_match NoSuchElementException file_input_selectors) (\<lambda>file_input.
              if \<not> file_input then ret False
              else
                andthen browser_call (\<lambda>_.
                andthen (sleep 2) (\<lambda>_.
                andthen (first_match TimeoutException send_selectors) (\<lambda>send_btn.
                  if send_btn then
                    andthen browser_call (\<lambda>_.
                    andthen (sleep 2) (\<lambda>_.
                    ret True))
                  else ret False))))))))
       (\<lambda>x. ret False)"

text \<open>\<^verbatim>\<open>d[k]\<close> on a dict.\<close>

definition dict_item :: "pydict \<Rightarrow> string \<Rightarrow> pyval action" where
  "dict_item d k = (case map_of d k of None \<Rightarrow> throw (KeyError k) | Some v \<Rightarrow> ret v)"

text \<open>
  \<^verbatim>\<open>send_message(self, phone_number, message=None, media_path=None)\<close>, in four parts
  that follow the source from its end to its start. Lines 299-308, the media step and
  the text step:
  \<^verbatim>\<open>
  if media_path and os.path.exists(media_path):
      if not self._send_media(media_path):
          logger.warning(...)
  if message:
      if not self._send_text_message(message):
          return {'success': False, 'error': 'Failed to send text message'}
  return {'success': True}
  \<close>
\<close>

definition send_message_parts :: "string option \<Rightarrow> string option \<Rightarrow> pydict action" where
  "send_message_parts message media_path =
     andthen get_env (\<lambda>e.
     andthen (case media_path of
                None \<Rightarrow> ret ()
              | Some p \<Rightarrow>
                  if p \<noteq> [] \<and> path_exists e p
                  then andthen (send_media p) (\<lambda>sent. ret ())
                  else ret ()) (\<lambda>_.
       case message of
         None \<Rightarrow> ret [(''success'', PyBool True)]
       | Some m \<Rightarrow>
           if m \<noteq> [] then
             andthen (send_text_message m) (\<lambda>sent.
               if \<not> sent then
                 ret [(''success'', PyBool False),
                      (''error'', PyStr ''Failed to send text message'')]
               else ret [(''success'', PyBool True)])
           else ret [(''success'', PyBool True)]))"

text \<open>Lines 288-308: normalization of the number, navigation to the chat, the wait for
  the chat, then the two steps above.\<close>

definition send_message_chat :: "string \<Rightarrow> string option \<Rightarrow> string option \<Rightarrow> pydict action" where
  "send_message_chat phone_number message media_path =
     (let chat_url = ''https://web.whatsapp.com/send?phone='' @ clean_phone phone_number
      in andthen (navigate chat_url) (\<lambda>_.
         andthen (wait_for_chat_to_load 30) (\<lambda>loaded.
           if \<not> loaded then
             ret [(''success'', PyBool False), (''error'', PyStr ''Failed to load chat interface'')]
           else send_message_parts message media_path)))"

text \<open>Lines 283-308: \<^verbatim>\<open>if not self.is_authenticated and not self._check_authentication()\<close>
  runs the initialization again and returns its result when it failed.\<close>

definition send_message_auth :: "string \<Rightarrow> string option \<Rightarrow> string option \<Rightarrow> pydict action" where
  "send_message_auth phone_number message media_path =
     andthen get_self (\<lambda>b.
     andthen (if is_authenticated b then ret True else check_authentication) (\<lambda>authenticated.
       if \<not> authenticated then
         andthen initialize_session (\<lambda>init_result.
         andthen (dict_item init_result ''success'') (\<lambda>ok.
           if \<not> truthy ok then ret init_result
           else send_message_chat phone_number message media_path))
       else send_message_chat phone_number message media_path))"

text \<open>The whole method: its result is always a dict, also where it failed.\<close>

definition send_message :: "string \<Rightarrow> string option \<Rightarrow> string option \<Rightarrow> pydict action" where
  "send_message phone_number message media_path =
     try_except
       (andthen get_self (\<lambda>b.
          if driver b = None then
            andthen initialize_session (\<lambda>init_result.
            andthen (dict_item init_result ''success'') (\<lambda>ok.
              if \<not> truthy ok then ret init_result
              else send_message_auth phone_number message media_path))
          else send_message_auth phone_number message media_path))
       (\<lambda>x. ret [(''success'', PyBool False), (''error'', PyStr (str_exn x))])"

subsection \<open>The scan code file and closing\<close>

text \<open>\<^verbatim>\<open>return self.qr_code_path if os.path.exists(self.qr_code_path) else None\<close>: a
  \<^verbatim>\<open>str\<close> or \<^verbatim>\<open>None\<close>.\<close>

definition get_qr_code_path :: "bot \<Rightarrow> env \<Rightarrow> pyval" where
  "get_qr_code_path b e =
     (if path_exists e (qr_code_path b) then PyStr (qr_code_path b) else PyNone)"

text \<open>\<^verbatim>\<open>os.remove(path)\<close>.\<close>

definition remove_file :: "string \<Rightarrow> unit action" where
  "remove_file p =
     andthen get_env (\<lambda>e.
       if p \<in> files e then set_env (\<lambda>e. e\<lparr>files := files e - {p}\<rparr>)
       else throw (OSError ''cannot remove''))"

text \<open>
  \<^verbatim>\<open>
  def close(self):
      try:
          if self.driver:
              self.driver.quit()
              self.driver = None
              self.is_authenticated = False
              if os.path.exists(self.qr_code_path):
                  os.remove(self.qr_code_path)
      except Exception as e:
          logger.error(...)
  \<close>
\<close>

definition close :: "unit action" where
  "close =
     try_except
       (andthen get_self (\<lambda>b.
          case driver b of
            None \<Rightarrow> ret ()
          | Some h \<Rightarrow>
              andthen (quit_driver h) (\<lambda>_.
              andthen (set_self (\<lambda>b. b\<lparr>driver := None\<rparr>)) (\<lambda>_.
              andthen (set_self (\<lambda>b. b\<lparr>is_authenticated := False\<rparr>)) (\<lambda>_.
              andthen get_env (\<lambda>e.
                if path_exists e (qr_code_path b) then remove_file (qr_code_path b)
                else ret ()))))))
       (\<lambda>x. ret ())"

text \<open>\<^verbatim>\<open>__del__\<close> (the second definition in the class, which replaces the first): it
  calls \<^verbatim>\<open>close\<close>. The runtime runs it when the object is collected.\<close>

definition finalizer :: "unit action" where
  "finalizer = try_except close (\<lambda>x. ret ())"

section \<open>The registry and the routes: app.py\<close>

text \<open>
  The configuration read from the environment when the module is loaded
  (\<^verbatim>\<open>HEADLESS\<close>, \<^verbatim>\<open>API_KEY\<close>, \<^verbatim>\<open>SESSION_TIMEOUT_MINUTES\<close>) is a parameter.
\<close>

record config =
  HEADLESS :: bool
  API_KEY :: "string option"
  SESSION_TIMEOUT_MINUTES :: int

text \<open>
  The state of the process. \<^verbatim>\<open>bot_instances\<close> is a dict from device id to session
  object; objects have identity and are mutated in place, so the dict holds references
  and \<open>objs\<close> is the store that gives each reference its object. \<open>next_ref\<close> is the
  next unused reference. A dict keeps its keys in insertion order, which the sweep
  follows, hence the association list.
\<close>

record app =
  bot_instances :: "(string \<times> nat) list"
  objs :: "nat \<Rightarrow> bot"
  next_ref :: nat
  world :: env

text \<open>A method call on the object behind a reference.\<close>

definition call_method :: "nat \<Rightarrow> 'a action \<Rightarrow> app \<Rightarrow> (exn + 'a) \<times> app" where
  "call_method r m a =
     (case m (objs a r, world a) of
        (res, (b, e)) \<Rightarrow> (res, a\<lparr>objs := (objs a)(r := b), world := e\<rparr>))"

text \<open>\<^verbatim>\<open>del d[k]\<close>.\<close>

definition py_del :: "string \<Rightarrow> (string \<times> nat) list \<Rightarrow> exn + (string \<times> nat) list" where
  "py_del k d = (case map_of d k of None \<Rightarrow> Inl (KeyError k) | Some v \<Rightarrow> Inr (AList.delete k d))"

text \<open>
  \<^verbatim>\<open>str(SESSIONS_DIR / device_id)\<close> with \<^verbatim>\<open>SESSIONS_DIR = Path("./sessions")\<close>, for a
  device id that is one segment of a URL path, as the routes receive it: not empty and
  without a slash. (\<^verbatim>\<open>pathlib\<close> drops the segment \<^verbatim>\<open>.\<close>.)
\<close>

definition sessions_path :: "string \<Rightarrow> string" where
  "sessions_path dev = (if dev = ''.'' then ''sessions'' else ''sessions/'' @ dev)"

text \<open>
  \<^verbatim>\<open>
  def get_or_create_bot(device_id='default', force_new=False):
      if not force_new and device_id in bot_instances:
          return bot_instances[device_id]
      profile_dir = SESSIONS_DIR / device_id
      bot = WhatsAppBot(headless=HEADLESS, profile_dir=profile_dir)
      bot_instances[device_id] = bot
      return bot
  \<close>
  The constructor is called without \<^verbatim>\<open>device_id\<close>, so its default \<^verbatim>\<open>'default'\<close>
  applies.
\<close>

definition get_or_create_bot :: "config \<Rightarrow> string \<Rightarrow> bool \<Rightarrow> app \<Rightarrow> nat \<times> app" where
  "get_or_create_bot cfg dev force_new a =
     (case (if \<not> force_new then map_of (bot_instances a) dev else None) of
        Some r \<Rightarrow> (r, a)
      | None \<Rightarrow>
          (let pdir = sessions_path dev;
               (b, e) = WhatsAppBot ''default'' (HEADLESS cfg) (Some pdir) (world a);
               r = next_ref a
           in (r, a\<lparr>bot_instances := AList.update dev r (bot_instances a),
                     objs := (objs a)(r := b), next_ref := Suc r, world := e\<rparr>)))"

text \<open>
  The body of the loop of \<^verbatim>\<open>cleanup_old_sessions\<close>, with its \<^verbatim>\<open>try ... except\<close>:
  \<^verbatim>\<open>
  if current_time - bot.last_activity > timeout_seconds:
      bot.close()
      del bot_instances[device_id]
  \<close>
  An exception leaves the state as it was when raised.
\<close>

definition cleanup_session :: "real \<Rightarrow> real \<Rightarrow> string \<times> nat \<Rightarrow> app \<Rightarrow> app" where
  "cleanup_session current_time timeout_seconds item a =
     (case item of (dev, r) \<Rightarrow>
        if current_time - last_activity (objs a r) > timeout_seconds then
          (case call_method r close a of
             (Inl x, a') \<Rightarrow> a'
           | (Inr _, a') \<Rightarrow>
               (case py_del dev (bot_instances a') of
                  Inl x \<Rightarrow> a'
                | Inr d \<Rightarrow> a'\<lparr>bot_instances := d\<rparr>))
        else a)"

text \<open>The sweep runs over a copy of the items (\<^verbatim>\<open>list(bot_instances.items())\<close>).\<close>

definition cleanup_old_sessions :: "config \<Rightarrow> app \<Rightarrow> app" where
  "cleanup_old_sessions cfg a =
     (let current_time = clock (world a);
          timeout_seconds = real_of_int (SESSION_TIMEOUT_MINUTES cfg * 60)
      in fold (cleanup_session current_time timeout_seconds) (bot_instances a) a)"

subsection \<open>Requests and responses\<close>

text \<open>
  Of a request, the \<^verbatim>\<open>X-API-KEY\<close> header and the string fields \<^verbatim>\<open>phone\<close> and
  \<^verbatim>\<open>message\<close> of its JSON body (\<open>None\<close> where the field or the body is missing). A
  response is a status code and either a JSON object or a file served from disk.
\<close>

record request =
  x_api_key :: "string option"
  json_phone :: "string option"
  json_message :: "string option"

datatype jval = JNull | JBool bool | JStr string | JTime real

datatype payload = Json "(string \<times> jval) list" | SendFile string

record response =
  status :: nat
  content :: payload

text \<open>The decorator \<^verbatim>\<open>require_api_key\<close> around a handler.\<close>

definition require_api_key ::
  "config \<Rightarrow> request \<Rightarrow> (app \<Rightarrow> response \<times> app) \<Rightarrow> app \<Rightarrow> response \<times> app" where
  "require_api_key cfg req f a =
     (if opt_truthy (API_KEY cfg)
         \<and> (\<not> opt_truthy (x_api_key req) \<or> x_api_key req \<noteq> API_KEY cfg)
      then (\<lparr>status = 401,
             content = Json [(''success'', JBool False),
                             (''error'', JStr ''Invalid or missing API key'')]\<rparr>, a)
      else f a)"

text \<open>\<^verbatim>\<open>qr_path.exists()\<close>: the method exists on a \<^verbatim>\<open>Path\<close> only.\<close>

definition py_exists :: "pyval \<Rightarrow> env \<Rightarrow> exn + bool" where
  "py_exists v e =
     (case v of
        PyPath p \<Rightarrow> Inr (path_exists e p)
      | PyStr s \<Rightarrow> Inl (AttributeError ''str'' ''exists'')
      | PyBool b \<Rightarrow> Inl (AttributeError ''bool'' ''exists'')
      | PyNone \<Rightarrow> Inl (AttributeError ''NoneType'' ''exists''))"

text \<open>
  \<^verbatim>\<open>GET /qr/<device_id>\<close>:
  \<^verbatim>\<open>
  try:
      bot = get_or_create_bot(device_id)
      qr_path = bot.get_qr_code_path()
      if qr_path and qr_path.exists():
          return send_from_directory(qr_path.parent, qr_path.name)
      return jsonify({"success": False, "error": "QR code not available"}), 404
  except Exception as e:
      return jsonify({"success": False, "error": str(e)}), 500
  \<close>
\<close>

definition qr_not_available :: response where
  "qr_not_available =
     \<lparr>status = 404,
      content = Json [(''success'', JBool False), (''error'', JStr ''QR code not available'')]\<rparr>"

definition get_qr_code :: "config \<Rightarrow> request \<Rightarrow> string \<Rightarrow> app \<Rightarrow> response \<times> app" where
  "get_qr_code cfg req dev =
     require_api_key cfg req (\<lambda>a.
       case get_or_create_bot cfg dev False a of
         (r, a1) \<Rightarrow>
           (let qr_path = get_qr_code_path (objs a1 r) (world a1)
            in if truthy qr_path then
                 (case py_exists qr_path (world a1) of
                    Inl x \<Rightarrow>
                      (\<lparr>status = 500,
                        content = Json [(''success'', JBool False),
                                        (''error'', JStr (str_exn x))]\<rparr>, a1)
                  | Inr found \<Rightarrow>
                      if found then
                        (\<lparr>status = 200,
                          content = SendFile (case qr_path of PyPath p \<Rightarrow> p | _ \<Rightarrow> [])\<rparr>, a1)
                      else (qr_not_available, a1))
               else (qr_not_available, a1)))"

text \<open>The text \<^verbatim>\<open>'phone' and 'message' fields are required\<close>.\<close>

definition fields_required :: string where
  "fields_required =
     [CHR 0x27] @ ''phone'' @ [CHR 0x27] @ '' and '' @ [CHR 0x27] @ ''message'' @ [CHR 0x27]
     @ '' fields are required''"

text \<open>
  \<^verbatim>\<open>POST /send/<device_id>\<close>. The handler tests the value that
  \<^verbatim>\<open>bot.send_message\<close> returns (\<^verbatim>\<open>if success:\<close>); that value is a dict.
\<close>

definition send_message_route :: "config \<Rightarrow> request \<Rightarrow> string \<Rightarrow> app \<Rightarrow> response \<times> app" where
  "send_message_route cfg req dev =
     require_api_key cfg req (\<lambda>a.
       case (json_phone req, json_message req) of
         (Some phone, Some message) \<Rightarrow>
           if phone = [] \<or> message = [] then
             (\<lparr>status = 400,
               content = Json [(''success'', JBool False),
                               (''error'', JStr fields_required)]\<rparr>, a)
           else
             (case get_or_create_bot cfg dev False a of
                (r, a1) \<Rightarrow>
                  (case call_method r (send_message phone (Some message) None) a1 of
                     (Inr success, a2) \<Rightarrow>
                       if dict_truthy success then
                         (\<lparr>status = 200,
                           content = Json [(''success'', JBool True),
                                           (''device_id'', JStr dev),
                                           (''phone'', JStr phone),
                                           (''timestamp'', JTime (clock (world a2)))]\<rparr>, a2)
                       else
                         (\<lparr>status = 500,
                           content = Json [(''success'', JBool False),
                                           (''error'', JStr ''Failed to send message''),
                                           (''device_id'', JStr dev),
                                           (''timestamp'', JTime (clock (world a2)))]\<rparr>, a2)
                   | (Inl x, a2) \<Rightarrow>
                       (\<lparr>status = 500,
                         content = Json [(''success'', JBool False),
                                         (''error'', JStr (str_exn x)),
                                         (''device_id'', JStr dev),
                                         (''timestamp'', JTime (clock (world a2)))]\<rparr>, a2)))
       | _ \<Rightarrow>
           (\<lparr>status = 400,
             content = Json [(''success'', JBool False),
                             (''error'', JStr fields_required)]\<rparr>, a))"

text \<open>
  \<^verbatim>\<open>DELETE /sessions/<device_id>\<close>:
  \<^verbatim>\<open>
  try:
      if device_id in bot_instances:
          bot_instances[device_id].close()
          del bot_instances[device_id]
      return jsonify({"success": True, "message": f"Session {device_id} deleted"})
  except Exception as e:
      return jsonify({"success": False, "error": str(e)}), 500
  \<close>
\<close>

definition delete_session :: "config \<Rightarrow> request \<Rightarrow> string \<Rightarrow> app \<Rightarrow> response \<times> app" where
  "delete_session cfg req dev =
     require_api_key cfg req (\<lambda>a.
       let deleted = \<lparr>status = 200,
                      content = Json [(''success'', JBool True),
                                      (''message'', JStr (''Session '' @ dev @ '' deleted''))]\<rparr>;
           failed = (\<lambda>x. \<lparr>status = 500,
                           content = Json [(''success'', JBool False),
                                           (''error'', JStr (str_exn x))]\<rparr>)
       in case map_of (bot_instances a) dev of
            None \<Rightarrow> (deleted, a)
          | Some r \<Rightarrow>
              (case call_method r close a of
                 (Inl x, a') \<Rightarrow> (failed x, a')
               | (Inr _, a') \<Rightarrow>
                   (case py_del dev (bot_instances a') of
                      Inl x \<Rightarrow> (failed x, a')
                    | Inr d \<Rightarrow> (deleted, a'\<lparr>bot_instances := d\<rparr>))))"

section \<open>Notions used in the statements\<close>

text \<open>A method that leaves \<^verbatim>\<open>last_activity\<close> of its object as it was.\<close>

definition keeps_activity :: "'a action \<Rightarrow> bool" where
  "keeps_activity m = (\<forall>s. last_activity (fst (snd (m s))) = last_activity (fst s))"

text \<open>What a method returns: \<open>yields P m\<close> when every value it returns satisfies \<open>P\<close>,
  \<open>returns P m\<close> when moreover it never raises.\<close>

definition yields :: "('a \<Rightarrow> bool) \<Rightarrow> 'a action \<Rightarrow> bool" where
  "yields P m = (\<forall>s v. fst (m s) = Inr v \<longrightarrow> P v)"

definition returns :: "('a \<Rightarrow> bool) \<Rightarrow> 'a action \<Rightarrow> bool" where
  "returns P m = (\<forall>s. \<exists>v. fst (m s) = Inr v \<and> P v)"

text \<open>A result dict with a boolean \<^verbatim>\<open>success\<close> entry, and one that reports failure.\<close>

definition reports :: "pydict \<Rightarrow> bool" where
  "reports d = (map_of d ''success'' = Some (PyBool True)
                \<or> map_of d ''success'' = Some (PyBool False))"



text \<open>The test of the sweep, and a browser that fails on some command from now on.\<close>

definition idle_too_long :: "real \<Rightarrow> real \<Rightarrow> app \<Rightarrow> nat \<Rightarrow> bool" where
  "idle_too_long now t a r = (now - last_activity (objs a r) > t)"


section \<open>Example states\<close>

text \<open>
  A machine without Chrome on which the browser, once it runs, answers every command;
  the default configuration without an API key; a request to send a message.
\<close>

definition env0 :: env where
  "env0 = \<lparr>clock = 1000, files = {}, dirs = {}, path_lookup = (\<lambda>_. None),
           browser = (\<lambda>_. Done), tick = 0, location = [], live = {}, next_handle = 0\<rparr>"

definition cfg0 :: config where
  "cfg0 = \<lparr>HEADLESS = True, API_KEY = None, SESSION_TIMEOUT_MINUTES = 30\<rparr>"

definition req0 :: request where
  "req0 = \<lparr>x_api_key = None, json_phone = Some ''9876543210'', json_message = Some ''hello''\<rparr>"

text \<open>A session object as the constructor makes it at time 1000, and the process right
  after its start: no session registered.\<close>

definition bot0 :: bot where
  "bot0 = fst (WhatsAppBot ''default'' True None env0)"

definition app0 :: app where
  "app0 = \<lparr>bot_instances = [], objs = (\<lambda>_. bot0), next_ref = 0, world = env0\<rparr>"

text \<open>The same session later, at time 1500, on a machine with Chrome: its driver runs
  (handle 0) and it is authenticated. \<open>app1\<close> has it registered for device \<^verbatim>\<open>a\<close>.\<close>

definition bot1 :: bot where
  "bot1 = bot0\<lparr>driver := Some 0, is_authenticated := True\<rparr>"

definition env1 :: env where
  "env1 = env0\<lparr>clock := 1500,
              files := {''/usr/bin/google-chrome'', ''/usr/local/bin/chromedriver''},
              dirs := {''sessions/default'', ''qr_codes'', ''sessions/a'',
                       ''sessions/default/user_data''},
              live := {0}, next_handle := 1\<rparr>"

definition app1 :: app where
  "app1 = \<lparr>bot_instances = [(''a'', 0)], objs = (\<lambda>_. bot1), next_ref = 1, world = env1\<rparr>"

text \<open>Two registered sessions at time 2800: \<^verbatim>\<open>a\<close> was constructed at time 100,
  \<^verbatim>\<open>b\<close> at time 2000. In \<open>app3\<close> the browser fails on the next command.\<close>

definition app2 :: app where
  "app2 = \<lparr>bot_instances = [(''a'', 0), (''b'', 1)],
           objs = (\<lambda>r. if r = 0 then bot1\<lparr>last_activity := 100\<rparr>
                       else bot1\<lparr>driver := Some 1, last_activity := 2000\<rparr>),
           next_ref = 2,
           world = env1\<lparr>clock := 2800, live := {0, 1}, next_handle := 2\<rparr>\<rparr>"

definition app3 :: app where
  "app3 = app2\<lparr>objs := (\<lambda>r. if r = 0 then bot1\<lparr>last_activity := 100\<rparr>
                            else bot1\<lparr>driver := Some 1, last_activity := 200\<rparr>),
               world := (world app2)\<lparr>browser :=
                  (\<lambda>n. if n = 0 then Raises (WebDriverException ''chrome not reachable'')
                       else Done)\<rparr>\<rparr>"

text \<open>The same machine with a scan code image on disk.\<close>

definition env_scan :: env where
  "env_scan = env1\<lparr>files := insert ''qr_codes/default_qr.png'' (files env1)\<rparr>"

text \<open>An existing picture; a browser that answers the six commands of the media step and
  then lets every wait time out; and one that lets the first three waits time out.\<close>

definition env_media_ok :: env where
  "env_media_ok = env1\<lparr>files := insert ''pic.png'' (files env1),
                       browser := (\<lambda>n. if n < 6 then Done else Raises TimeoutException)\<rparr>"

definition env_media_fails :: env where
  "env_media_fails = env1\<lparr>files := insert ''pic.png'' (files env1),
                          browser := (\<lambda>n. if n < 3 then Raises TimeoutException else Done)\<rparr>"

section \<open>Phone number normalization\<close>



section \<open>Unfolding the model\<close>

lemmas action_defs = ret_def throw_def andthen_def try_except_def get_self_def get_env_def
  set_self_def set_env_def sleep_def browser_call_def driver_call_def navigate_def
  start_chrome_def quit_driver_def

lemmas bot_defs = WhatsAppBot_def find_chrome_executable_def find_chromedriver_executable_def
  user_data_dir_def setup_driver_def check_authentication_def wait_for_qr_code_def
  write_qr_file_def qr_selectors_def save_qr_code_def wait_for_authentication_def
  initialize_session_def wait_for_chat_to_load_def input_selectors_def send_text_message_def
  attachment_selectors_def file_input_selectors_def send_selectors_def send_media_def
  dict_item_def send_message_parts_def send_message_chat_def send_message_auth_def
  send_message_def get_qr_code_path_def remove_file_def close_def finalizer_def
  path_exists_def opt_truthy_def py_or_def dict_truthy_def clean_phone_def isdigit_def

lemmas app_defs = call_method_def py_del_def sessions_path_def get_or_create_bot_def
  cleanup_session_def cleanup_old_sessions_def require_api_key_def py_exists_def
  qr_not_available_def get_qr_code_def send_message_route_def delete_session_def
  fields_required_def

lemmas example_defs = env0_def cfg0_def req0_def bot0_def app0_def bot1_def env1_def
  app1_def app2_def app3_def env_scan_def env_media_ok_def env_media_fails_def

section \<open>No method touches last_activity\<close>

lemma keeps_ret: "keeps_activity (ret x)"
  and keeps_throw: "keeps_activity (throw e)"
  and keeps_get_self: "keeps_activity get_self"
  and keeps_get_env: "keeps_activity get_env"
  and keeps_set_env: "keeps_activity (set_env f)"
  by (simp_all add: keeps_activity_def ret_def throw_def get_self_def get_env_def set_env_def)

lemma keeps_set_self:
  "(\<And>b. last_activity (f b) = last_activity b) \<Longrightarrow> keeps_activity (set_self f)"
  by (simp add: keeps_activity_def set_self_def)

lemma keeps_andthen:
  "keeps_activity m \<Longrightarrow> (\<And>v. keeps_activity (f v)) \<Longrightarrow> keeps_activity (andthen m f)"
  unfolding keeps_activity_def andthen_def
  by (auto split: prod.splits sum.splits) (metis snd_conv fst_conv)+

lemma keeps_try_except:
  "keeps_activity m \<Longrightarrow> (\<And>x. keeps_activity (h x)) \<Longrightarrow> keeps_activity (try_except m h)"
  unfolding keeps_activity_def try_except_def
  by (auto split: prod.splits sum.splits) (metis snd_conv fst_conv)+

lemma keeps_browser_call: "keeps_activity browser_call"
  by (simp add: keeps_activity_def browser_call_def Let_def split: reply.splits)

lemmas keeps_intros = keeps_ret keeps_throw keeps_get_self keeps_get_env keeps_set_env
  keeps_set_self keeps_andthen keeps_try_except keeps_browser_call

lemma keeps_sleep: "keeps_activity (sleep d)"
  by (simp add: sleep_def keeps_intros)

lemma keeps_driver_call: "keeps_activity (driver_call n)"
  by (auto simp: driver_call_def intro!: keeps_intros split: option.splits)

lemma keeps_navigate: "keeps_activity (navigate u)"
  by (auto simp: navigate_def intro!: keeps_intros keeps_driver_call)

lemma keeps_start_chrome: "keeps_activity start_chrome"
  by (auto simp: start_chrome_def intro!: keeps_intros)

lemma keeps_quit_driver: "keeps_activity (quit_driver h)"
  by (auto simp: quit_driver_def intro!: keeps_intros)

lemma keeps_setup_driver: "keeps_activity setup_driver"
  by (auto simp: setup_driver_def Let_def intro!: keeps_intros keeps_driver_call keeps_start_chrome)

lemma keeps_check_authentication: "keeps_activity check_authentication"
  by (auto simp: check_authentication_def intro!: keeps_intros keeps_driver_call)

lemma keeps_wait_for_qr_code: "keeps_activity (wait_for_qr_code t)"
  by (auto simp: wait_for_qr_code_def intro!: keeps_intros keeps_driver_call)

lemma keeps_write_qr_file: "keeps_activity write_qr_file"
  by (auto simp: write_qr_file_def intro!: keeps_intros)

lemma keeps_save_qr_loop: "keeps_activity (save_qr_loop sels)"
  by (induction sels) (auto intro!: keeps_intros keeps_driver_call keeps_write_qr_file)

lemma keeps_save_qr_code: "keeps_activity save_qr_code"
  by (auto simp: save_qr_code_def intro!: keeps_intros keeps_save_qr_loop)

text \<open>The polling loop, by induction along its own recursion.\<close>

lemma auth_loop_activity:
  "last_activity (fst (snd (auth_loop t s))) = last_activity (fst s)"
proof (induction t s rule: auth_loop.induct)
  case (1 end_time s)
  have chk: "last_activity (fst (snd (check_authentication s))) = last_activity (fst s)"
    using keeps_check_authentication unfolding keeps_activity_def by blast
  show ?case
  proof (cases "clock (snd s) < end_time")
    case False
    then show ?thesis by (simp add: auth_loop.simps [of end_time s])
  next
    case True
    obtain r s' where cs: "check_authentication s = (r, s')"
      by (cases "check_authentication s")
    with chk have s': "last_activity (fst s') = last_activity (fst s)" by simp
    show ?thesis
    proof (cases r)
      case (Inl x)
      with True cs s' show ?thesis by (simp add: auth_loop.simps [of end_time s])
    next
      case (Inr a)
      show ?thesis
      proof (cases a)
        case True
        with \<open>clock (snd s) < end_time\<close> cs s' Inr show ?thesis
          by (simp add: auth_loop.simps [of end_time s])
      next
        case False
        have "last_activity (fst (snd (auth_loop end_time (snd (sleep 2 s'))))) =
              last_activity (fst (snd (sleep 2 s')))"
          using "1.IH" [OF \<open>clock (snd s) < end_time\<close> cs [symmetric] Inr False] .
        also have "\<dots> = last_activity (fst s')"
          by (simp add: sleep_def set_env_def)
        finally show ?thesis
          using \<open>clock (snd s) < end_time\<close> cs s' Inr False
          by (simp add: auth_loop.simps [of end_time s])
      qed
    qed
  qed
qed

lemma keeps_auth_loop: "keeps_activity (auth_loop t)"
  unfolding keeps_activity_def using auth_loop_activity by blast

lemma keeps_wait_for_authentication: "keeps_activity (wait_for_authentication t)"
  by (auto simp: wait_for_authentication_def intro!: keeps_intros keeps_auth_loop)

lemma keeps_initialize_session: "keeps_activity initialize_session"
  by (auto simp: initialize_session_def intro!: keeps_intros keeps_setup_driver keeps_navigate
      keeps_sleep keeps_check_authentication keeps_wait_for_qr_code keeps_save_qr_code
      keeps_wait_for_authentication)

lemma keeps_wait_for_chat_to_load: "keeps_activity (wait_for_chat_to_load t)"
  by (auto simp: wait_for_chat_to_load_def intro!: keeps_intros keeps_driver_call keeps_sleep)

lemma keeps_first_match: "keeps_activity (first_match skip sels)"
  by (induction sels) (auto intro!: keeps_intros keeps_driver_call)

lemma keeps_type_lines: "keeps_activity (type_lines ls)"
  by (induction ls rule: type_lines.induct) (auto intro!: keeps_intros)

lemma keeps_send_text_message: "keeps_activity (send_text_message m)"
  by (auto simp: send_text_message_def intro!: keeps_intros keeps_first_match keeps_sleep
      keeps_type_lines)

lemma keeps_send_media: "keeps_activity (send_media p)"
  by (auto simp: send_media_def intro!: keeps_intros keeps_first_match keeps_sleep)

lemma keeps_dict_item: "keeps_activity (dict_item d k)"
  by (auto simp: dict_item_def intro!: keeps_intros split: option.splits)

lemma keeps_send_message_parts: "keeps_activity (send_message_parts msg media)"
  by (auto simp: send_message_parts_def intro!: keeps_intros keeps_send_media
      keeps_send_text_message split: option.splits)

lemma keeps_send_message_chat: "keeps_activity (send_message_chat ph msg media)"
  by (auto simp: send_message_chat_def Let_def intro!: keeps_intros keeps_navigate
      keeps_wait_for_chat_to_load keeps_send_message_parts)

lemma keeps_send_message_auth: "keeps_activity (send_message_auth ph msg media)"
  by (auto simp: send_message_auth_def intro!: keeps_intros keeps_check_authentication
      keeps_initialize_session keeps_dict_item keeps_send_message_chat)

lemma keeps_send_message: "keeps_activity (send_message ph msg media)"
  by (auto simp: send_message_def intro!: keeps_intros keeps_initialize_session
      keeps_dict_item keeps_send_message_auth)

lemma keeps_remove_file: "keeps_activity (remove_file p)"
  by (auto simp: remove_file_def intro!: keeps_intros)

lemma keeps_close: "keeps_activity close"
  by (auto simp: close_def intro!: keeps_intros keeps_quit_driver keeps_remove_file
      split: option.splits)

section \<open>Sending and last_activity\<close>

text \<open>
  C2, as the specification states it: every successful \<^verbatim>\<open>send_message\<close> moves the
  session's \<^verbatim>\<open>last_activity\<close> to the time of the operation. The code does not: on an
  authenticated session with a running driver and a browser that answers every command,
  sending \<^verbatim>\<open>hello\<close> to \<^verbatim>\<open>9876543210\<close> returns \<^verbatim>\<open>{'success': True}\<close>, the clock
  has advanced, and \<^verbatim>\<open>last_activity\<close> is not greater than before.
\<close>

theorem send_message_success_keeps_old_last_activity:
  "fst (send_message ''9876543210'' (Some ''hello'') None (bot1, env1))
     = Inr [(''success'', PyBool True)]
   \<and> clock env1 < clock (snd (snd (send_message ''9876543210'' (Some ''hello'') None (bot1, env1))))
   \<and> \<not> last_activity bot1
         < last_activity (fst (snd (send_message ''9876543210'' (Some ''hello'') None (bot1, env1))))"
  by (simp add: bot_defs action_defs example_defs Let_def)

text \<open>
  C2, amended: \<^verbatim>\<open>send_message\<close> never changes \<^verbatim>\<open>last_activity\<close>. After every call,
  whatever it returns, the field still holds the value it had before the call (the time
  at which the session object was constructed).
\<close>

theorem send_message_keeps_last_activity:
  "last_activity (fst (snd (send_message phone_number message media_path (b, e))))
     = last_activity b"
  using keeps_send_message [of phone_number message media_path]
  unfolding keeps_activity_def by (metis fst_conv)

section \<open>The routes\<close>

text \<open>
  C1 says that \<^verbatim>\<open>POST /send/<device_id>\<close> answers 500 with \<^verbatim>\<open>success\<close> false when the
  bot's \<^verbatim>\<open>send_message\<close> reports failure. Evaluated on a machine without Chrome: the
  session cannot start its driver, \<^verbatim>\<open>send_message\<close> returns
  \<^verbatim>\<open>{'success': False, 'error': 'Failed to setup WebDriver'}\<close>, and the route answers
  200 with \<^verbatim>\<open>success\<close> true, because the handler tests the dict itself, which is
  not empty.
\<close>

theorem send_route_answers_success_for_failed_send:
  "fst (call_method 0 (send_message ''9876543210'' (Some ''hello'') None)
          (snd (get_or_create_bot cfg0 ''default'' False app0)))
     = Inr [(''success'', PyBool False), (''error'', PyStr ''Failed to setup WebDriver'')]
   \<and> fst (send_message_route cfg0 req0 ''default'' app0)
     = \<lparr>status = 200,
        content = Json [(''success'', JBool True), (''device_id'', JStr ''default''),
                        (''phone'', JStr ''9876543210''), (''timestamp'', JTime 1000)]\<rparr>"
  by (simp add: app_defs bot_defs action_defs example_defs Let_def)

text \<open>
  C7 says that \<^verbatim>\<open>GET /qr/<device_id>\<close> serves the PNG when the session's scan code
  file exists. Evaluated with the file \<^verbatim>\<open>qr_codes/default_qr.png\<close> on disk:
  \<^verbatim>\<open>get_qr_code_path\<close> returns a \<^verbatim>\<open>str\<close>, \<^verbatim>\<open>qr_path.exists()\<close> raises
  \<^verbatim>\<open>AttributeError\<close>, and the route answers 500. Without the file it answers 404.
\<close>

theorem qr_route_fails_when_file_exists:
  "fst (get_qr_code cfg0 req0 ''alice'' (app0\<lparr>world := env0\<lparr>files := {''qr_codes/default_qr.png''}\<rparr>\<rparr>))
     = \<lparr>status = 500,
        content = Json [(''success'', JBool False),
                        (''error'', JStr (str_exn (AttributeError ''str'' ''exists'')))]\<rparr>
   \<and> fst (get_qr_code cfg0 req0 ''alice'' app0) = qr_not_available"
  by (simp add: app_defs bot_defs action_defs example_defs Let_def)

section \<open>The registry\<close>

text \<open>
  C3 says that the session obtained for device \<open>d\<close> keeps its scan code image at
  \<^verbatim>\<open>qr_codes/{d}_qr.png\<close> and its profile in a directory named after \<open>d\<close>, and that two
  device ids never share an image path. Evaluated for \<^verbatim>\<open>alice\<close> and \<^verbatim>\<open>bob\<close> on a
  fresh process: the two sessions are distinct objects, both have the image path
  \<^verbatim>\<open>qr_codes/default_qr.png\<close> and both start Chrome on the user data directory
  \<^verbatim>\<open>sessions/default/user_data\<close>; only the unused field \<^verbatim>\<open>profile_dir\<close> is named
  after the device.
\<close>

theorem sessions_share_default_paths:
  "(case get_or_create_bot cfg0 ''alice'' False app0 of
      (r1, a1) \<Rightarrow>
        (case get_or_create_bot cfg0 ''bob'' False a1 of
           (r2, a2) \<Rightarrow>
             r1 \<noteq> r2
             \<and> device_id (objs a2 r1) = ''default''
             \<and> qr_code_path (objs a2 r1) = ''qr_codes/default_qr.png''
             \<and> qr_code_path (objs a2 r2) = ''qr_codes/default_qr.png''
             \<and> user_data_dir (objs a2 r1) = ''sessions/default/user_data''
             \<and> user_data_dir (objs a2 r2) = ''sessions/default/user_data''
             \<and> profile_dir (objs a2 r1) = ''sessions/alice''
             \<and> profile_dir (objs a2 r2) = ''sessions/bob''))"
  by (simp add: app_defs bot_defs example_defs Let_def)


text \<open>
  C10. For every device id and every registry state, \<^verbatim>\<open>get_or_create_bot\<close>, with or
  without \<^verbatim>\<open>force_new\<close>, followed by \<^verbatim>\<open>get_or_create_bot\<close> without \<^verbatim>\<open>force_new\<close>
  returns the same session object (the same reference) both times, and the second call
  changes nothing: not the registry, not any object, not the world.
\<close>

theorem get_or_create_bot_again_same_object:
  "(case get_or_create_bot cfg dev force_new a of
      (r, a') \<Rightarrow> get_or_create_bot cfg dev False a' = (r, a'))"
  by (auto simp: get_or_create_bot_def Let_def update_conv' split: option.splits prod.splits)

section \<open>Closing a session\<close>

lemma close_no_driver: "driver b = None \<Longrightarrow> close (b, e) = (Inr (), (b, e))"
  by (simp add: close_def action_defs)

lemma close_result: "fst (close s) = Inr ()"
  by (auto simp: close_def action_defs remove_file_def Let_def
      split: option.splits reply.splits prod.splits sum.splits if_splits)

lemma close_quit_ok:
  "driver b = Some h \<Longrightarrow> browser e (tick e) = Done \<Longrightarrow>
   close (b, e) = (Inr (), (b\<lparr>driver := None, is_authenticated := False\<rparr>,
      e\<lparr>tick := Suc (tick e), live := live e - {h}, files := files e - {qr_code_path b}\<rparr>))"
  by (auto simp: close_def action_defs remove_file_def Let_def path_exists_def
      split: option.splits reply.splits prod.splits sum.splits if_splits)



text \<open>
  C9, as the specification states it: for every session state, after \<^verbatim>\<open>close()\<close> the
  driver handle is absent, \<^verbatim>\<open>is_authenticated\<close> is false and the scan code file is
  deleted if it was present. Two states where this fails. A session that never started
  a driver, while a file exists at its scan code path (left by an earlier run, or written
  by another session, since all share the path): \<^verbatim>\<open>close()\<close> does nothing and the file
  is still there. A session whose driver runs while the browser is unreachable:
  \<^verbatim>\<open>quit()\<close> raises, the handler logs it, and the session still has its driver handle.
\<close>

theorem close_leaves_file_or_driver:
  "driver bot0 = None
   \<and> qr_code_path bot0 \<in> files (env0\<lparr>files := {''qr_codes/default_qr.png''}\<rparr>)
   \<and> qr_code_path bot0
       \<in> files (snd (snd (close (bot0, env0\<lparr>files := {''qr_codes/default_qr.png''}\<rparr>))))
   \<and> driver (fst (snd (close (bot1,
          env1\<lparr>browser := (\<lambda>n. Raises (WebDriverException ''chrome not reachable''))\<rparr>))))
       = Some 0"
  by (simp add: bot_defs action_defs example_defs Let_def)

text \<open>
  C9, amended. \<^verbatim>\<open>close()\<close> never raises. On a session without a driver handle it
  changes nothing. On a session with a driver handle whose \<^verbatim>\<open>quit()\<close> succeeds, the
  handle is absent afterwards, its process has ended, \<^verbatim>\<open>is_authenticated\<close> is false
  and no file is left at the session's scan code path. In both cases a second
  \<^verbatim>\<open>close()\<close> changes nothing.
\<close>

theorem close_effect:
  "fst (close (b, e)) = Inr ()
   \<and> (driver b = None \<longrightarrow> snd (close (b, e)) = (b, e))
   \<and> (driver b = Some h \<and> browser e (tick e) = Done \<longrightarrow>
        driver (fst (snd (close (b, e)))) = None
        \<and> \<not> is_authenticated (fst (snd (close (b, e))))
        \<and> h \<notin> live (snd (snd (close (b, e))))
        \<and> qr_code_path b \<notin> files (snd (snd (close (b, e)))))
   \<and> (driver b = None \<or> browser e (tick e) = Done \<longrightarrow>
        close (snd (close (b, e))) = (Inr (), snd (close (b, e))))"
proof -
  have quit: "driver b = Some h \<and> browser e (tick e) = Done \<longrightarrow>
        driver (fst (snd (close (b, e)))) = None
        \<and> \<not> is_authenticated (fst (snd (close (b, e))))
        \<and> h \<notin> live (snd (snd (close (b, e))))
        \<and> qr_code_path b \<notin> files (snd (snd (close (b, e))))"
    by (auto simp: close_quit_ok)
  have again: "close (snd (close (b, e))) = (Inr (), snd (close (b, e)))"
    if "driver b = None \<or> browser e (tick e) = Done"
  proof (cases "driver b")
    case None
    then show ?thesis by (simp add: close_no_driver)
  next
    case (Some k)
    with that have "browser e (tick e) = Done" by simp
    with Some show ?thesis by (simp add: close_quit_ok close_no_driver)
  qed
  from quit again show ?thesis
    by (simp add: close_result close_no_driver)
qed

theorem close_effect_witness:
  "driver (fst (snd (close (bot1, env_scan)))) = None
   \<and> \<not> is_authenticated (fst (snd (close (bot1, env_scan))))
   \<and> 0 \<notin> live (snd (snd (close (bot1, env_scan))))
   \<and> ''qr_codes/default_qr.png'' \<notin> files (snd (snd (close (bot1, env_scan))))
   \<and> close (snd (close (bot1, env_scan))) = (Inr (), snd (close (bot1, env_scan)))
   \<and> snd (close (bot0, env0)) = (bot0, env0)"
proof -
  have running: "driver bot1 = Some 0" "browser env_scan (tick env_scan) = Done"
    and fresh: "driver bot0 = None"
    and path: "qr_code_path bot1 = ''qr_codes/default_qr.png''"
    by (simp_all add: example_defs WhatsAppBot_def Let_def)
  from close_effect [of bot1 env_scan 0] close_effect [of bot0 env0 0] running fresh path
  show ?thesis by simp
qed

section \<open>The idle sweep\<close>


lemma cleanup_session_activity:
  "last_activity (objs (cleanup_session now t item a) r') = last_activity (objs a r')"
proof -
  obtain d r where item: "item = (d, r)" by (cases item)
  have "last_activity (fst (snd (close (objs a r, world a)))) = last_activity (objs a r)"
    using keeps_close unfolding keeps_activity_def by (metis fst_conv)
  then show ?thesis
    by (auto simp: item cleanup_session_def call_method_def py_del_def
        split: prod.splits sum.splits option.splits)
qed

lemma cleanup_session_idle:
  "idle_too_long now t (cleanup_session now t item a) r = idle_too_long now t a r"
  by (simp add: idle_too_long_def cleanup_session_activity)

lemma cleanup_fold_idle:
  "idle_too_long now t (fold (cleanup_session now t) xs a) r = idle_too_long now t a r"
  by (induction xs arbitrary: a) (simp_all add: cleanup_session_idle)

















section \<open>Media and text in send_message\<close>

lemma send_text_message_total: "\<exists>sent. fst (send_text_message m s) = Inr sent"
  by (cases "first_match TimeoutException input_selectors s")
     (auto simp: send_text_message_def try_except_def andthen_def ret_def
      split: prod.splits sum.splits)

lemma send_media_total: "\<exists>sent. fst (send_media p s) = Inr sent"
  by (auto simp: send_media_def try_except_def ret_def split: prod.splits sum.splits)

subsection \<open>What methods return\<close>

lemma yields_ret: "P x \<Longrightarrow> yields P (ret x)"
  and yields_throw: "yields P (throw e)"
  by (simp_all add: yields_def ret_def throw_def)

lemma yields_andthen: "(\<And>v. yields P (f v)) \<Longrightarrow> yields P (andthen m f)"
  unfolding yields_def andthen_def
  by (auto split: prod.splits sum.splits)

lemma returns_ret: "P x \<Longrightarrow> returns P (ret x)"
  by (simp add: returns_def ret_def)

lemma returns_try_except:
  "yields P m \<Longrightarrow> (\<And>x. returns P (h x)) \<Longrightarrow> returns P (try_except m h)"
  unfolding yields_def returns_def try_except_def
  by (auto split: prod.splits sum.splits) (metis fst_conv)

lemma initialize_session_reports: "returns reports initialize_session"
  unfolding initialize_session_def
  by (intro returns_try_except returns_ret yields_andthen)
     (auto simp: reports_def intro!: yields_ret yields_andthen)

text \<open>The media step only moves the state from which the text step runs.\<close>

lemma parts_after_media:
  "send_message_parts msg media s =
     send_message_parts msg None
       (case media of
          None \<Rightarrow> s
        | Some p \<Rightarrow> if p \<noteq> [] \<and> path_exists (snd s) p then snd (send_media p s) else s)"
proof (cases media)
  case None
  then show ?thesis by simp
next
  case (Some p)
  obtain sent where "fst (send_media p s) = Inr sent"
    using send_media_total by blast
  with Some show ?thesis
    by (cases "send_media p s")
       (simp add: send_message_parts_def andthen_def get_env_def ret_def)
qed

lemma parts_no_media_returns:
  "\<exists>d. fst (send_message_parts msg None s) = Inr d \<and> reports d"
proof (cases msg)
  case None
  then show ?thesis
    by (simp add: send_message_parts_def andthen_def get_env_def ret_def reports_def)
next
  case (Some m)
  obtain ok where "fst (send_text_message m s) = Inr ok"
    using send_text_message_total by blast
  with Some show ?thesis
    by (cases "send_text_message m s")
       (simp add: send_message_parts_def andthen_def get_env_def ret_def reports_def)
qed

lemma send_message_parts_returns: "returns reports (send_message_parts msg media)"
proof -
  have "\<exists>d. fst (send_message_parts msg media s) = Inr d \<and> reports d" for s
    by (subst parts_after_media) (rule parts_no_media_returns)
  then show ?thesis unfolding returns_def by blast
qed

subsection \<open>Every call ends early with a failure or runs the two steps\<close>










section \<open>What send_message returns, and what the send route makes of it\<close>

text \<open>\<^verbatim>\<open>send_message\<close> never raises, and what it returns is a dict with a boolean
  \<^verbatim>\<open>success\<close> entry: never an empty dict, never a bare boolean.\<close>

lemma yields_after:
  "yields Q m \<Longrightarrow> (\<And>v. Q v \<Longrightarrow> yields P (f v)) \<Longrightarrow> yields P (andthen m f)"
  unfolding yields_def andthen_def
  by (auto split: prod.splits sum.splits) (metis fst_conv)

lemma returns_yields: "returns P m \<Longrightarrow> yields P m"
  unfolding returns_def yields_def by (metis sum.inject(2))

lemma yields_send_message_chat: "yields reports (send_message_chat ph msg media)"
  unfolding send_message_chat_def Let_def
  by (intro yields_andthen)
     (auto simp: reports_def intro!: yields_ret returns_yields [OF send_message_parts_returns])

lemma yields_init_then:
  assumes "yields reports rest"
  shows "yields reports
           (andthen initialize_session (\<lambda>init_result.
            andthen (dict_item init_result ''success'') (\<lambda>ok.
              if \<not> truthy ok then ret init_result else rest)))"
  by (rule yields_after [OF returns_yields [OF initialize_session_reports]])
     (auto intro!: yields_andthen yields_ret assms)

lemma yields_send_message_auth: "yields reports (send_message_auth ph msg media)"
  unfolding send_message_auth_def
  by (intro yields_andthen)
     (auto intro!: yields_init_then yields_send_message_chat)

lemma send_message_returns_report: "returns reports (send_message ph msg media)"
  unfolding send_message_def
  by (intro returns_try_except yields_andthen)
     (auto simp: reports_def intro!: returns_ret yields_init_then yields_send_message_auth)

text \<open>
  Consequently the send route answers 200 for every request that passes the key check
  and carries a phone number and a message, whether the message was sent or not.
\<close>

lemma send_route_answers_200:
  assumes "\<not> opt_truthy (API_KEY cfg) \<or> x_api_key req = API_KEY cfg"
    and "json_phone req = Some ph" "ph \<noteq> []"
    and "json_message req = Some msg" "msg \<noteq> []"
  shows "status (fst (send_message_route cfg req dev a)) = 200"
proof -
  obtain r a1 where g: "get_or_create_bot cfg dev False a = (r, a1)"
    by (cases "get_or_create_bot cfg dev False a")
  obtain d where d: "fst (send_message ph (Some msg) None (objs a1 r, world a1)) = Inr d" "reports d"
    using send_message_returns_report unfolding returns_def by blast
  from d(2) have "dict_truthy d"
    unfolding reports_def dict_truthy_def by auto
  with assms g d(1) show ?thesis
    by (cases "send_message ph (Some msg) None (objs a1 r, world a1)")
       (auto simp: send_message_route_def require_api_key_def call_method_def opt_truthy_def
          split: option.splits)
qed

end
